theory Spec2Isabelle
  imports Complex_Main "HOL-Library.Word"
begin

section \<open>Machine types of the sketches\<close>

text \<open>
  The sketches run on an 8-bit AVR: \<^verbatim>\<open>uint8_t\<close> is an 8-bit word, \<^verbatim>\<open>uint32_t\<close> a
  32-bit word.  A C \<^verbatim>\<open>int\<close> is modelled as a HOL \<open>int\<close>: every \<^verbatim>\<open>int\<close> expression of
  the functions below is built from \<^verbatim>\<open>uint8_t\<close> values and the constants of the
  timezone table, and stays far inside the 16-bit range.
\<close>

type_synonym uint8 = "8 word"
type_synonym uint32 = "32 word"

section \<open>Hour arithmetic of the time compositor\<close>

text \<open>
  \<^verbatim>\<open>normalizeHours\<close> (both pin-switched sketches): two loops in sequence, the first
  adds 24 while the value is negative, the second subtracts 24 while it is 24 or more.
\<close>

function normalizeHours_up :: "int \<Rightarrow> int" where
  "normalizeHours_up hours = (if hours < 0 then normalizeHours_up (hours + 24) else hours)"
  by pat_completeness auto
termination
  by (relation "measure (\<lambda>hours. nat (- hours))") auto

declare normalizeHours_up.simps [simp del]

function normalizeHours_down :: "int \<Rightarrow> int" where
  "normalizeHours_down hours = (if hours \<ge> 24 then normalizeHours_down (hours - 24) else hours)"
  by pat_completeness auto
termination
  by (relation "measure (\<lambda>hours. nat hours)") auto

declare normalizeHours_down.simps [simp del]

definition normalizeHours :: "int \<Rightarrow> int" where
  "normalizeHours hours = normalizeHours_down (normalizeHours_up hours)"

text \<open>\<^verbatim>\<open>convertTo12Hour\<close>: midnight becomes 12, afternoon hours lose 12.\<close>

definition convertTo12Hour :: "int \<Rightarrow> int" where
  "convertTo12Hour hours24 =
     (if hours24 = 0 then 12
      else if hours24 > 12 then hours24 - 12
      else hours24)"

section \<open>Floating-point coordinates\<close>

text \<open>
  Latitudes and longitudes are C \<^verbatim>\<open>float\<close>s.  The code only compares them, and a
  comparison of two floats is exact: a finite float is the real number it denotes, and
  every comparison with a NaN is false.  Infinite values are left out.  Arithmetic on
  floats (the tolerance test of \<^verbatim>\<open>updateGPSData\<close>) is not modelled; its outcome is
  an input of each pass of the main loop.
\<close>

datatype cfloat = NaN | Num real

fun fle :: "cfloat \<Rightarrow> cfloat \<Rightarrow> bool" where
  "fle (Num a) (Num b) = (a \<le> b)"
| "fle _ _ = False"

definition fge :: "cfloat \<Rightarrow> cfloat \<Rightarrow> bool" where
  "fge a b = fle b a"

fun feq :: "cfloat \<Rightarrow> cfloat \<Rightarrow> bool" where
  "feq (Num a) (Num b) = (a = b)"
| "feq _ _ = False"

section \<open>Timezone table\<close>

text \<open>
  \<^verbatim>\<open>struct Timezone\<close> of the auto-timezone sketch.  The two \<^verbatim>\<open>int8_t\<close> offsets are
  read only through conversions to \<^verbatim>\<open>int\<close>, so they are kept as the integers the table
  gives them.  The field \<^verbatim>\<open>abbreviation\<close> is spelt \<open>abbreviation_\<close>, the plain
  word being an Isabelle keyword.
\<close>

record Timezone =
  name :: string
  abbreviation_ :: string
  utcOffset :: int
  observesDST :: bool
  dstOffset :: int
  minLat :: cfloat
  maxLat :: cfloat
  minLon :: cfloat
  maxLon :: cfloat

definition mkTimezone ::
  "string \<Rightarrow> string \<Rightarrow> int \<Rightarrow> bool \<Rightarrow> int \<Rightarrow> real \<Rightarrow> real \<Rightarrow> real \<Rightarrow> real \<Rightarrow> Timezone" where
  "mkTimezone n a off dst d la0 la1 lo0 lo1 =
     \<lparr>name = n, abbreviation_ = a, utcOffset = off, observesDST = dst, dstOffset = d,
      minLat = Num la0, maxLat = Num la1, minLon = Num lo0, maxLon = Num lo1\<rparr>"

definition TIMEZONES :: "Timezone list" where
  "TIMEZONES =
    [mkTimezone ''Pacific Standard'' ''PST'' (-8) True 1 32 49 (-125) (-114),
     mkTimezone ''Mountain Standard'' ''MST'' (-7) True 1 31 49 (-114) (-104),
     mkTimezone ''Central Standard'' ''CST'' (-6) True 1 25 49 (-104) (-87),
     mkTimezone ''Eastern Standard'' ''EST'' (-5) True 1 24 49 (-87) (-67),
     mkTimezone ''Atlantic Standard'' ''AST'' (-4) False 0 44 60 (-70) (-53),
     mkTimezone ''Hawaii Standard'' ''HST'' (-10) False 0 18 23 (-161) (-154),
     mkTimezone ''Alaska Standard'' ''AKST'' (-9) True 1 54 72 (-180) (-130),
     mkTimezone ''UTC'' ''UTC'' 0 False 0 (-90) 90 (-180) 180]"

text \<open>\<^verbatim>\<open>sizeof(TIMEZONES) / sizeof(TIMEZONES[0])\<close>, stored in a \<^verbatim>\<open>uint8_t\<close>.\<close>

definition NUM_TIMEZONES :: uint8 where
  "NUM_TIMEZONES = of_nat (length TIMEZONES)"

section \<open>Configuration constants\<close>

text \<open>
  The three intervals are \<^verbatim>\<open>uint16_t\<close> constants that the code only compares with
  differences of \<^verbatim>\<open>uint32_t\<close> timestamps; they are given at that width.
\<close>

definition TIME_24_HOUR :: bool where
  "TIME_24_HOUR = False"

definition DISPLAY_UPDATE_MS :: uint32 where
  "DISPLAY_UPDATE_MS = 100"

definition TIMEZONE_CHECK_MS :: uint32 where
  "TIMEZONE_CHECK_MS = 1000"

definition LOCATION_CHECK_MS :: uint32 where
  "LOCATION_CHECK_MS = 30000"

section \<open>Clock state and the inputs of one pass of the main loop\<close>

record ClockState =
  lastUpdate :: uint32
  lastTimezoneCheck :: uint32
  lastLocationCheck :: uint32
  colonState :: bool
  gpsFixValid :: bool
  hours :: uint8
  minutes :: uint8
  seconds :: uint8
  currentTimezoneIndex :: uint8
  isDSTActive :: bool
  dstSwitchState :: bool
  timezoneSwitchState :: uint8
  autoModeEnabled :: bool
  lastLat :: cfloat
  lastLon :: cfloat
  locationChanged :: bool

text \<open>The default member initialisers of \<^verbatim>\<open>struct ClockState\<close>.\<close>

definition clockState0 :: ClockState where
  "clockState0 =
     \<lparr>lastUpdate = 0, lastTimezoneCheck = 0, lastLocationCheck = 0, colonState = False,
      gpsFixValid = False, hours = 0, minutes = 0, seconds = 0, currentTimezoneIndex = 0,
      isDSTActive = False, dstSwitchState = False, timezoneSwitchState = 0,
      autoModeEnabled = True, lastLat = Num 0, lastLon = Num 0, locationChanged = False\<rparr>"

text \<open>The fields of the \<^verbatim>\<open>Adafruit_GPS\<close> object that the sketches read.\<close>

record GPS =
  gps_fix :: bool
  gps_hour :: uint8
  gps_minute :: uint8
  gps_seconds :: uint8
  gps_day :: uint8
  gps_month :: uint8
  gps_year :: uint8
  latitudeDegrees :: cfloat
  longitudeDegrees :: cfloat

text \<open>
  What one pass of \<^verbatim>\<open>loop\<close> reads from its collaborators: whether a sentence arrived
  and parsed, the GPS fields as they stand after the parse, the outcome of the
  floating-point tolerance test, the levels of the five input pins (\<open>True\<close> is
  \<^verbatim>\<open>LOW\<close>, the asserted level) and the value of \<^verbatim>\<open>millis()\<close>, read once per pass.
\<close>

record Tick =
  newNMEAreceived :: bool
  parseOk :: bool
  gps :: GPS
  beyondTolerance :: bool
  pinA_low :: bool
  pinB_low :: bool
  pinC_low :: bool
  dstPin_low :: bool
  autoModePin_low :: bool
  millis :: uint32

section \<open>Reading the current timezone\<close>

text \<open>
  \<^verbatim>\<open>getCurrentTimezone\<close> indexes the table with no bounds check; the read is
  meaningful for indices below \<open>NUM_TIMEZONES\<close> only.
\<close>

definition getCurrentTimezone :: "ClockState \<Rightarrow> Timezone" where
  "getCurrentTimezone s = TIMEZONES ! unat (currentTimezoneIndex s)"

definition getTimezoneOffset :: "ClockState \<Rightarrow> int" where
  "getTimezoneOffset s = utcOffset (getCurrentTimezone s)"

definition getDSTOffset :: "ClockState \<Rightarrow> int" where
  "getDSTOffset s =
     (let tz = getCurrentTimezone s in
      if \<not> observesDST tz then 0
      else if isDSTActive s then dstOffset tz else 0)"

definition calculateTimezoneOffset :: "ClockState \<Rightarrow> int" where
  "calculateTimezoneOffset s = getTimezoneOffset s + getDSTOffset s"

section \<open>DST calculator\<close>

text \<open>
  \<^verbatim>\<open>calculateFirstSunday\<close>.  The three locals \<^verbatim>\<open>fullYear\<close>, \<^verbatim>\<open>adjustedMonth\<close> and
  \<^verbatim>\<open>adjustedYear\<close> are \<^verbatim>\<open>uint8_t\<close>: the sum \<^verbatim>\<open>2000 + year\<close> is cut to its low eight
  bits when it is stored.  The congruence itself is evaluated in \<^verbatim>\<open>int\<close> on the
  promoted values (all terms are non-negative, so C's \<^verbatim>\<open>/\<close> and \<^verbatim>\<open>%\<close> are \<open>div\<close>
  and \<open>mod\<close>) and stored back into the \<^verbatim>\<open>uint8_t\<close> \<^verbatim>\<open>dayOfWeek\<close>.
\<close>

definition calculateFirstSunday :: "uint8 \<Rightarrow> uint8 \<Rightarrow> uint8" where
  "calculateFirstSunday month year =
     (let fullYear = (word_of_int (2000 + uint year) :: uint8);
          adjustedMonth = (if month < 3 then month + 12 else month);
          adjustedYear = (if month < 3 then fullYear - 1 else fullYear);
          dayOfWeek = (word_of_int
            ((1 + (13 * (uint adjustedMonth + 1)) div 5 + uint adjustedYear
                + uint adjustedYear div 4 - uint adjustedYear div 100
                + uint adjustedYear div 400) mod 7) :: uint8);
          dayOfWeek = (word_of_int ((uint dayOfWeek + 5) mod 7) :: uint8)
      in if dayOfWeek = 0 then 1 else word_of_int (8 - uint dayOfWeek))"

definition calculateSecondSunday :: "uint8 \<Rightarrow> uint8 \<Rightarrow> uint8" where
  "calculateSecondSunday month year =
     (let firstSunday = calculateFirstSunday month year in firstSunday + 7)"

text \<open>\<^verbatim>\<open>calculateDSTAuto\<close> of the auto-timezone sketch (the Sunday-based rule).\<close>

definition calculateDSTAuto :: "GPS \<Rightarrow> ClockState \<Rightarrow> bool" where
  "calculateDSTAuto g s =
     (if \<not> gpsFixValid s then False
      else let tz = getCurrentTimezone s in
      if \<not> observesDST tz then False
      else let month = gps_month g; day = gps_day g; year = gps_year g in
      if month < 3 \<or> month > 11 then False
      else if month > 3 \<and> month < 11 then True
      else let dstStartDay = calculateSecondSunday 3 year;
               dstEndDay = calculateFirstSunday 11 year in
      if month = 3 then day \<ge> dstStartDay
      else if month = 11 then day < dstEndDay
      else False)"

text \<open>
  \<^verbatim>\<open>calculateDSTAuto\<close> of the pin-switched sketch (\<^verbatim>\<open>gps_clock_tz_dst\<close>), which
  compares the day against fixed thresholds.  Its \<^verbatim>\<open>ClockState\<close> and table are those
  above without the location fields.
\<close>

definition calculateDSTAuto_tz_dst :: "GPS \<Rightarrow> ClockState \<Rightarrow> bool" where
  "calculateDSTAuto_tz_dst g s =
     (if \<not> gpsFixValid s then False
      else let tz = getCurrentTimezone s in
      if \<not> observesDST tz then False
      else let month = gps_month g; day = gps_day g in
      if month \<ge> 4 \<and> month \<le> 10 then True
      else if month = 3 then day \<ge> 8
      else if month = 11 then day < 7
      else False)"

section \<open>Time compositor\<close>

definition updateTimeFromGPS :: "GPS \<Rightarrow> ClockState \<Rightarrow> ClockState" where
  "updateTimeFromGPS g s =
     (let totalOffset = calculateTimezoneOffset s;
          adjustedHours = uint (gps_hour g) + totalOffset;
          adjustedHours = normalizeHours adjustedHours
      in s\<lparr>hours := word_of_int adjustedHours, minutes := gps_minute g,
            seconds := gps_seconds g\<rparr>)"

definition updateGPSData :: "Tick \<Rightarrow> ClockState \<Rightarrow> ClockState" where
  "updateGPSData t s =
     (if newNMEAreceived t then
        if parseOk t then
          let s = s\<lparr>gpsFixValid := gps_fix (gps t)\<rparr> in
          if gpsFixValid s then
            let s = updateTimeFromGPS (gps t) s in
            if beyondTolerance t then s\<lparr>locationChanged := True\<rparr> else s
          else s
        else s
      else s)"

text \<open>
  The day-boundary handling of the original sketch's \<^verbatim>\<open>loop\<close>: two conditionals in
  sequence on the \<^verbatim>\<open>int\<close> \<^verbatim>\<open>hours\<close>.  \<^verbatim>\<open>HOUR_OFFSET\<close> is a macro the user edits, so
  it is a parameter; \<^verbatim>\<open>isDST\<close> returns 1 when the DST pin reads \<^verbatim>\<open>HIGH\<close>.
\<close>

definition isDST :: "bool \<Rightarrow> int" where
  "isDST dstPin_high = (if dstPin_high then 1 else 0)"

definition original_dayBoundary :: "int \<Rightarrow> int" where
  "original_dayBoundary h =
     (let h = (if h < 0 then 24 + h else h);
          h = (if h > 23 then 24 - h else h)
      in h)"

definition original_loop_hours :: "int \<Rightarrow> uint8 \<Rightarrow> bool \<Rightarrow> int" where
  "original_loop_hours HOUR_OFFSET hour dstPin_high =
     original_dayBoundary (uint hour + HOUR_OFFSET + isDST dstPin_high)"

section \<open>Timezone resolver\<close>

definition inBox :: "Timezone \<Rightarrow> cfloat \<Rightarrow> cfloat \<Rightarrow> bool" where
  "inBox tz lat lon =
     (fge lat (minLat tz) \<and> fle lat (maxLat tz) \<and> fge lon (minLon tz) \<and> fle lon (maxLon tz))"

text \<open>
  The \<^verbatim>\<open>for\<close> loop of \<^verbatim>\<open>detectTimezoneFromLocation\<close>, from counter \<open>i\<close> on: it runs
  while \<open>i < NUM_TIMEZONES - 1\<close> (the comparison is made in \<^verbatim>\<open>int\<close>), returns the
  first index whose box holds the point, and \<open>NUM_TIMEZONES - 1\<close> after the loop.
\<close>

function detectLoop :: "cfloat \<Rightarrow> cfloat \<Rightarrow> nat \<Rightarrow> nat" where
  "detectLoop lat lon i =
     (if int i < uint NUM_TIMEZONES - 1 then
        if inBox (TIMEZONES ! i) lat lon then i
        else detectLoop lat lon (i + 1)
      else unat NUM_TIMEZONES - 1)"
  by pat_completeness auto
termination
  by (relation "measure (\<lambda>(lat, lon, i). nat (uint NUM_TIMEZONES - 1 - int i))") auto

declare detectLoop.simps [simp del]

definition detectTimezoneFromLocation :: "cfloat \<Rightarrow> cfloat \<Rightarrow> uint8" where
  "detectTimezoneFromLocation lat lon = of_nat (detectLoop lat lon 0)"

text \<open>\<^verbatim>\<open>updateTimezoneSettings\<close>: the manual resolver, a no-op in auto mode.\<close>

definition updateTimezoneSettings :: "Tick \<Rightarrow> ClockState \<Rightarrow> ClockState" where
  "updateTimezoneSettings t s =
     (if autoModeEnabled s then s
      else
        let newTimezoneState = (0 :: uint8);
            newTimezoneState = (if pinA_low t then or newTimezoneState 1 else newTimezoneState);
            newTimezoneState = (if pinB_low t then or newTimezoneState 2 else newTimezoneState);
            newTimezoneState = (if pinC_low t then or newTimezoneState 4 else newTimezoneState);
            newDSTState = dstPin_low t;
            s = (if newTimezoneState \<noteq> timezoneSwitchState s
                 then s\<lparr>timezoneSwitchState := newTimezoneState,
                        currentTimezoneIndex := newTimezoneState mod NUM_TIMEZONES\<rparr>
                 else s);
            s = (if newDSTState \<noteq> dstSwitchState s
                 then s\<lparr>dstSwitchState := newDSTState, isDSTActive := newDSTState\<rparr>
                 else s)
        in s)"

definition updateTimezoneIfNeeded :: "Tick \<Rightarrow> ClockState \<Rightarrow> ClockState" where
  "updateTimezoneIfNeeded t s =
     (if millis t - lastTimezoneCheck s \<ge> TIMEZONE_CHECK_MS
      then (updateTimezoneSettings t s)\<lparr>lastTimezoneCheck := millis t\<rparr>
      else s)"

text \<open>
  \<^verbatim>\<open>updateLocationIfNeeded\<close>: the auto resolver, then the check of the mode pin.
  \<open>autoSwitchTimezone\<close> is the body of its inner conditional: detect the timezone,
  switch to it and recompute DST when the index differs, then record the position.
\<close>

definition autoSwitchTimezone :: "Tick \<Rightarrow> ClockState \<Rightarrow> ClockState" where
  "autoSwitchTimezone t s =
     (let newTimezoneIndex =
            detectTimezoneFromLocation (latitudeDegrees (gps t)) (longitudeDegrees (gps t));
          s = (if newTimezoneIndex \<noteq> currentTimezoneIndex s then
                 let s = s\<lparr>currentTimezoneIndex := newTimezoneIndex\<rparr> in
                 if observesDST (getCurrentTimezone s)
                 then s\<lparr>isDSTActive := calculateDSTAuto (gps t) s\<rparr>
                 else s\<lparr>isDSTActive := False\<rparr>
               else s)
      in s\<lparr>lastLat := latitudeDegrees (gps t), lastLon := longitudeDegrees (gps t),
            locationChanged := False\<rparr>)"

definition updateLocationIfNeeded :: "Tick \<Rightarrow> ClockState \<Rightarrow> ClockState" where
  "updateLocationIfNeeded t s =
     (if \<not> gpsFixValid s then s
      else
        let s = (if millis t - lastLocationCheck s \<ge> LOCATION_CHECK_MS \<or> locationChanged s
                 then
                   let s = (if locationChanged s \<or> feq (lastLat s) (Num 0)
                            then autoSwitchTimezone t s else s)
                   in s\<lparr>lastLocationCheck := millis t\<rparr>
                 else s);
            newAutoMode = autoModePin_low t
        in if newAutoMode \<noteq> autoModeEnabled s then
             let s = s\<lparr>autoModeEnabled := newAutoMode\<rparr> in
             if \<not> autoModeEnabled s then updateTimezoneSettings t s else s
           else s)"

section \<open>Display formatter\<close>

text \<open>
  The display driver is a collaborator: a call of \<^verbatim>\<open>updateDisplay\<close> is modelled by
  the list of driver calls it makes, in order.  \<^verbatim>\<open>showNoGPSIndicator\<close> keeps two
  function-local statics, passed in and out explicitly.
\<close>

datatype DisplayCall =
  Print int | WriteDigitNum nat nat | DrawColon bool | Clear | WriteDisplay

record NoGPSIndicator =
  lastBlink :: uint32
  blinkState :: bool

definition showNoGPSIndicator ::
  "uint32 \<Rightarrow> NoGPSIndicator \<Rightarrow> DisplayCall list \<times> NoGPSIndicator" where
  "showNoGPSIndicator now ind =
     (if now - lastBlink ind \<ge> 500 then
        let ind = ind\<lparr>blinkState := \<not> blinkState ind, lastBlink := now\<rparr> in
        ((if blinkState ind then [Print 0, DrawColon True] else [Clear]) @ [WriteDisplay], ind)
      else ([], ind))"

definition updateDisplay ::
  "uint32 \<Rightarrow> ClockState \<Rightarrow> NoGPSIndicator \<Rightarrow> DisplayCall list \<times> NoGPSIndicator" where
  "updateDisplay now s ind =
     (if \<not> gpsFixValid s then showNoGPSIndicator now ind
      else
        let displayHours = uint (hours s);
            displayHours = (if \<not> TIME_24_HOUR then convertTo12Hour displayHours
                            else displayHours);
            displayValue = displayHours * 100 + uint (minutes s);
            showColon = (seconds s mod 2 = 0)
        in ([Print displayValue]
            @ (if TIME_24_HOUR \<and> hours s < 10
               then WriteDigitNum 1 0 # (if minutes s < 10 then [WriteDigitNum 3 0] else [])
               else [])
            @ [DrawColon showColon, WriteDisplay], ind))"

section \<open>Start-up and the main loop\<close>

definition initializePins :: "Tick \<Rightarrow> ClockState \<Rightarrow> ClockState" where
  "initializePins t s =
     (let s = s\<lparr>autoModeEnabled := autoModePin_low t\<rparr>
      in if \<not> autoModeEnabled s then updateTimezoneSettings t s else s)"

text \<open>
  \<^verbatim>\<open>setup\<close> (here \<open>setup_sketch\<close>): of its calls only \<^verbatim>\<open>initializePins\<close> touches
  the clock state, which starts from its default initialisers.
\<close>

definition setup_sketch :: "Tick \<Rightarrow> ClockState" where
  "setup_sketch t = initializePins t clockState0"

definition loop ::
  "Tick \<Rightarrow> ClockState \<times> NoGPSIndicator \<Rightarrow> ClockState \<times> NoGPSIndicator \<times> DisplayCall list" where
  "loop t = (\<lambda>(s, ind).
     let s = updateGPSData t s;
         s = (if autoModeEnabled s then updateLocationIfNeeded t s
              else updateTimezoneIfNeeded t s)
     in if millis t - lastUpdate s \<ge> DISPLAY_UPDATE_MS then
          let (calls, ind) = updateDisplay (millis t) s ind
          in (s\<lparr>lastUpdate := millis t\<rparr>, ind, calls)
        else (s, ind, []))"

text \<open>The clock states the sketch can be in: after \<^verbatim>\<open>setup\<close>, and after each pass.\<close>

inductive reachable :: "ClockState \<Rightarrow> bool" where
  reachable_setup: "reachable (setup_sketch t)"
| reachable_loop: "reachable s \<Longrightarrow> reachable (fst (loop t (s, ind)))"

section \<open>Reference calendar\<close>

text \<open>
  The Gregorian calendar by counting days, independent of the congruence used by the
  code: 1 January 2000 was a Saturday.  Weekdays are numbered from Sunday = 0.
\<close>

definition ref_is_leap :: "nat \<Rightarrow> bool" where
  "ref_is_leap y = (y mod 4 = 0 \<and> (y mod 100 \<noteq> 0 \<or> y mod 400 = 0))"

definition ref_days_in_year :: "nat \<Rightarrow> nat" where
  "ref_days_in_year y = (if ref_is_leap y then 366 else 365)"

definition ref_days_in_month :: "nat \<Rightarrow> nat \<Rightarrow> nat" where
  "ref_days_in_month y m =
     (if m = 2 then (if ref_is_leap y then 29 else 28)
      else if m = 4 \<or> m = 6 \<or> m = 9 \<or> m = 11 then 30 else 31)"

text \<open>Days from 1 January 2000 to 1 January of year \<open>y\<close>, counted year by year.\<close>

function ref_days_before_year :: "nat \<Rightarrow> nat" where
  "ref_days_before_year y =
     (if y \<le> 2000 then 0 else ref_days_in_year (y - 1) + ref_days_before_year (y - 1))"
  by pat_completeness auto
termination
  by (relation "measure (\<lambda>y. y)") auto

declare ref_days_before_year.simps [simp del]

text \<open>Days from 1 January to the first of month \<open>m\<close>, counted month by month.\<close>

function ref_days_before_month :: "nat \<Rightarrow> nat \<Rightarrow> nat" where
  "ref_days_before_month y m =
     (if m \<le> 1 then 0 else ref_days_in_month y (m - 1) + ref_days_before_month y (m - 1))"
  by pat_completeness auto
termination
  by (relation "measure (\<lambda>(y, m). m)") auto

declare ref_days_before_month.simps [simp del]

definition ref_weekday :: "nat \<Rightarrow> nat \<Rightarrow> nat \<Rightarrow> nat" where
  "ref_weekday y m d =
     (6 + ref_days_before_year y + ref_days_before_month y m + (d - 1)) mod 7"

definition ref_firstSunday :: "nat \<Rightarrow> nat \<Rightarrow> nat" where
  "ref_firstSunday y m = (let w = ref_weekday y m 1 in if w = 0 then 1 else 8 - w)"

definition ref_secondSunday :: "nat \<Rightarrow> nat \<Rightarrow> nat" where
  "ref_secondSunday y m = ref_firstSunday y m + 7"

section \<open>Sample inputs\<close>

text \<open>
  A GPS reading with a fix inside the Pacific box, at 14:30:15 UTC on 10 March 2024, and
  a clock state with a valid fix and the table's first entry (Pacific Standard)
  selected.  The pin levels of \<open>tick_manual\<close> select manual mode, table entry 4
  (Atlantic Standard, which does not observe DST) and DST on; those of \<open>tick_auto\<close>
  select auto mode, with a parsed sentence carrying \<open>gps_sample\<close>.
\<close>

definition gps_sample :: GPS where
  "gps_sample =
     \<lparr>gps_fix = True, gps_hour = 14, gps_minute = 30, gps_seconds = 15,
      gps_day = 10, gps_month = 3, gps_year = 24,
      latitudeDegrees = Num 40, longitudeDegrees = Num (-120)\<rparr>"

definition clock_pacific :: ClockState where
  "clock_pacific = clockState0\<lparr>gpsFixValid := True\<rparr>"

definition tick_manual :: Tick where
  "tick_manual =
     \<lparr>newNMEAreceived = False, parseOk = False, gps = gps_sample, beyondTolerance = False,
      pinA_low = False, pinB_low = False, pinC_low = True, dstPin_low = True,
      autoModePin_low = False, millis = 0\<rparr>"

definition tick_auto :: Tick where
  "tick_auto =
     \<lparr>newNMEAreceived = True, parseOk = True, gps = gps_sample, beyondTolerance = True,
      pinA_low = False, pinB_low = False, pinC_low = False, dstPin_low = False,
      autoModePin_low = True, millis = 1000\<rparr>"

section \<open>Properties\<close>

text \<open>
  C7: for every hour in 0..23, \<^verbatim>\<open>convertTo12Hour\<close> maps 0 to 12, every hour in 13..23
  to the hour minus 12, leaves 1..12 unchanged, and its result lies in 1..12; in
  particular 0 gives 12, 13 gives 1, 12 gives 12 and 23 gives 11.
\<close>

theorem convertTo12Hour_spec:
  "0 \<le> h \<and> h \<le> 23 \<longrightarrow>
     (h = 0 \<longrightarrow> convertTo12Hour h = 12) \<and>
     (13 \<le> h \<longrightarrow> convertTo12Hour h = h - 12) \<and>
     (1 \<le> h \<and> h \<le> 12 \<longrightarrow> convertTo12Hour h = h) \<and>
     1 \<le> convertTo12Hour h \<and> convertTo12Hour h \<le> 12"
  by (simp add: convertTo12Hour_def)

theorem convertTo12Hour_spec_witness:
  "convertTo12Hour 0 = 12 \<and> convertTo12Hour 13 = 1 \<and>
   convertTo12Hour 12 = 12 \<and> convertTo12Hour 23 = 11"
  using convertTo12Hour_spec [of 0] convertTo12Hour_spec [of 13]
    convertTo12Hour_spec [of 12] convertTo12Hour_spec [of 23]
  by simp

subsection \<open>Day-boundary normalisation\<close>

lemma normalizeHours_up_eq: "normalizeHours_up h = (if h < 0 then h mod 24 else h)"
proof (induction h rule: normalizeHours_up.induct)
  case (1 h)
  show ?case
  proof (cases "h < 0")
    case True
    then have step: "normalizeHours_up h = normalizeHours_up (h + 24)"
      by (subst normalizeHours_up.simps) simp
    have ih: "normalizeHours_up (h + 24) = (if h + 24 < 0 then (h + 24) mod 24 else h + 24)"
      using 1 True by blast
    show ?thesis
    proof (cases "h + 24 < 0")
      case True
      with step ih \<open>h < 0\<close> show ?thesis by simp
    next
      case False
      have "h mod 24 = h + 24"
        using \<open>h < 0\<close> False by (intro mod_pos_pos_trivial [of "h + 24" 24, simplified]) auto
      with step ih False \<open>h < 0\<close> show ?thesis by simp
    qed
  next
    case False
    then show ?thesis by (subst normalizeHours_up.simps) simp
  qed
qed

lemma normalizeHours_down_eq: "0 \<le> h \<Longrightarrow> normalizeHours_down h = h mod 24"
proof (induction h rule: normalizeHours_down.induct)
  case (1 h)
  show ?case
  proof (cases "h \<ge> 24")
    case True
    then have step: "normalizeHours_down h = normalizeHours_down (h - 24)"
      by (subst normalizeHours_down.simps) simp
    have "normalizeHours_down (h - 24) = (h - 24) mod 24"
      using 1 True by simp
    with step show ?thesis by simp
  next
    case False
    with 1(2) show ?thesis by (subst normalizeHours_down.simps) simp
  qed
qed

lemma normalizeHours_mod: "normalizeHours h = h mod 24"
  by (simp add: normalizeHours_def normalizeHours_up_eq normalizeHours_down_eq)

text \<open>
  The loop form \<^verbatim>\<open>normalizeHours\<close> lands in 0..23 and undoes an offset of up to 14
  hours either way.
\<close>

lemma normalizeHours_roundtrip:
  "0 \<le> h \<and> h \<le> 23 \<and> -14 \<le> d \<and> d \<le> 14 \<longrightarrow>
     0 \<le> normalizeHours (h + d) \<and> normalizeHours (h + d) \<le> 23 \<and>
     normalizeHours (normalizeHours (h + d) - d) = h"
proof -
  have "(h + d) mod 24 \<le> 23"
    using pos_mod_bound [of 24 "h + d"] by linarith
  then show ?thesis by (simp add: normalizeHours_mod mod_diff_left_eq)
qed

text \<open>
  C3: for every UTC hour h in 0..23 and offset d in -14..14 the normalised hour lies in
  0..23 and normalising it minus d gives h back, in the loop form and in the two
  conditionals of the original sketch.  The loop form does this
  (\<open>normalizeHours_roundtrip\<close>); the original sketch computes \<^verbatim>\<open>24 - hours\<close> in its
  second conditional, so at UTC hour 23 with \<^verbatim>\<open>HOUR_OFFSET\<close> 2 it yields -1, where
  \<^verbatim>\<open>normalizeHours\<close> yields 1; and with the offset -8 the sketch ships with, UTC
  hour 1 becomes 17, and taking the offset back out of 17 yields -1 instead of 1.
\<close>

theorem original_loop_hours_out_of_range:
  "original_loop_hours 2 23 False = -1 \<and>
   normalizeHours (uint (23 :: uint8) + 2 + isDST False) = 1 \<and>
   original_loop_hours (-8) 1 False = 17 \<and>
   original_dayBoundary (original_loop_hours (-8) 1 False - (-8)) = -1"
  by (simp add: original_loop_hours_def original_dayBoundary_def isDST_def normalizeHours_mod)

subsection \<open>DST calculator\<close>

lemmas ref_calendar_eval =
  ref_firstSunday_def ref_secondSunday_def ref_weekday_def ref_days_before_year.simps
  ref_days_before_month.simps ref_days_in_year_def ref_days_in_month_def ref_is_leap_def

lemma firstSunday_of_weekday:
  fixes k :: int
  assumes "0 \<le> k" "k < 7"
  shows "1 \<le> (if (word_of_int k :: uint8) = 0 then 1
               else word_of_int (8 - uint (word_of_int k :: uint8)) :: uint8)
       \<and> (if (word_of_int k :: uint8) = 0 then 1
            else word_of_int (8 - uint (word_of_int k :: uint8)) :: uint8) \<le> 7"
proof -
  from assms have "k = 0 \<or> k = 1 \<or> k = 2 \<or> k = 3 \<or> k = 4 \<or> k = 5 \<or> k = 6" by arith
  then show ?thesis by (elim disjE) simp_all
qed

text \<open>Whatever its arguments, \<^verbatim>\<open>calculateFirstSunday\<close> returns a day in 1..7.\<close>

lemma calculateFirstSunday_range:
  "1 \<le> calculateFirstSunday month year \<and> calculateFirstSunday month year \<le> 7"
  unfolding calculateFirstSunday_def Let_def
  by (rule firstSunday_of_weekday) simp_all

lemma calculateSecondSunday_range:
  "8 \<le> calculateSecondSunday month year \<and> calculateSecondSunday month year \<le> 14"
proof -
  have "1 \<le> calculateFirstSunday month year" "calculateFirstSunday month year \<le> 7"
    using calculateFirstSunday_range by blast+
  then have lo: "1 \<le> unat (calculateFirstSunday month year)"
    and hi: "unat (calculateFirstSunday month year) \<le> 7"
    by (simp_all add: word_le_nat_alt)
  then have "unat (calculateFirstSunday month year + 7) = unat (calculateFirstSunday month year) + 7"
    by (simp add: unat_word_ariths)
  with lo hi show ?thesis
    by (simp add: calculateSecondSunday_def word_le_nat_alt)
qed

lemma clock_pacific_tz:
  "gpsFixValid clock_pacific \<and> observesDST (getCurrentTimezone clock_pacific) \<and>
   name (getCurrentTimezone clock_pacific) = ''Pacific Standard''"
  by (simp add: clock_pacific_def clockState0_def getCurrentTimezone_def TIMEZONES_def
      mkTimezone_def)

text \<open>
  The branch structure of the two calculators: both need a fix and a timezone that
  observes DST, both answer yes from April to October and no in January, February and
  December; they differ in the day tests of March and November.
\<close>

lemma calculateDSTAuto_rule:
  "calculateDSTAuto g s =
     (gpsFixValid s \<and> observesDST (getCurrentTimezone s) \<and>
      (3 < gps_month g \<and> gps_month g < 11 \<or>
       gps_month g = 3 \<and> gps_day g \<ge> calculateSecondSunday 3 (gps_year g) \<or>
       gps_month g = 11 \<and> gps_day g < calculateFirstSunday 11 (gps_year g)))"
  unfolding calculateDSTAuto_def Let_def
  by (auto simp: word_less_nat_alt word_le_nat_alt)

lemma calculateDSTAuto_tz_dst_rule:
  "calculateDSTAuto_tz_dst g s =
     (gpsFixValid s \<and> observesDST (getCurrentTimezone s) \<and>
      (3 < gps_month g \<and> gps_month g < 11 \<or>
       gps_month g = 3 \<and> gps_day g \<ge> 8 \<or>
       gps_month g = 11 \<and> gps_day g < 7))"
  unfolding calculateDSTAuto_tz_dst_def Let_def
  by (auto simp: word_less_nat_alt word_le_nat_alt)

text \<open>
  C2: for months 1..12 and year offsets 0..99, \<^verbatim>\<open>calculateFirstSunday\<close> is to return
  the true first Sunday of the month and \<^verbatim>\<open>calculateSecondSunday\<close> that day plus 7.
  For March 2024 (month 3, year 24) the code returns 5 and 12; the first of March 2024
  was a Friday, so the first and second Sundays were the 3rd and the 10th.
\<close>

theorem calculateFirstSunday_march_2024:
  "calculateFirstSunday 3 24 = 5 \<and> calculateSecondSunday 3 24 = 12 \<and>
   ref_weekday 2024 3 1 = 5 \<and> ref_firstSunday 2024 3 = 3 \<and> ref_secondSunday 2024 3 = 10"
  by (simp add: calculateSecondSunday_def calculateFirstSunday_def ref_calendar_eval)

text \<open>
  C1: with a DST-observing timezone, \<^verbatim>\<open>calculateDSTAuto\<close> is to switch DST on from
  the second Sunday of March and off from the first Sunday of November; for 2024 that
  means off on 9 March, on on 10 March, on on 2 November, off on 3 November.  With a
  valid fix and Pacific Standard selected, the code answers off for 10 March 2024 and
  on for 3 November 2024: it compares against day 12 in March and day 5 in November,
  while the second Sunday of March 2024 was the 10th and the first Sunday of November
  2024 the 3rd.
\<close>

theorem calculateDSTAuto_2024:
  "calculateDSTAuto (gps_sample\<lparr>gps_month := 3, gps_day := 9\<rparr>) clock_pacific = False \<and>
   calculateDSTAuto (gps_sample\<lparr>gps_month := 3, gps_day := 10\<rparr>) clock_pacific = False \<and>
   calculateDSTAuto (gps_sample\<lparr>gps_month := 11, gps_day := 2\<rparr>) clock_pacific = True \<and>
   calculateDSTAuto (gps_sample\<lparr>gps_month := 11, gps_day := 3\<rparr>) clock_pacific = True \<and>
   ref_secondSunday 2024 3 = 10 \<and> ref_firstSunday 2024 11 = 3"
proof -
  have code: "calculateSecondSunday 3 24 = 12" "calculateFirstSunday 11 24 = 5"
    by (simp_all add: calculateSecondSunday_def calculateFirstSunday_def)
  have ref: "ref_secondSunday 2024 3 = 10" "ref_firstSunday 2024 11 = 3"
    by (simp_all add: ref_calendar_eval)
  show ?thesis
    using clock_pacific_tz code ref
    by (simp add: calculateDSTAuto_rule gps_sample_def)
qed

text \<open>
  C10, as stated: the threshold calculator of the pin-switched sketch and the
  Sunday-based calculator return the same answer for every date and DST-observing
  timezone.  On 8 March 2024 they differ: the threshold calculator says on (8 is not
  below 8), the Sunday-based one says off.
\<close>

theorem dst_variants_differ:
  "observesDST (getCurrentTimezone clock_pacific) \<and>
   calculateDSTAuto_tz_dst (gps_sample\<lparr>gps_day := 8\<rparr>) clock_pacific = True \<and>
   calculateDSTAuto (gps_sample\<lparr>gps_day := 8\<rparr>) clock_pacific = False"
proof -
  have code: "calculateSecondSunday 3 24 = 12"
    by (simp add: calculateSecondSunday_def calculateFirstSunday_def)
  show ?thesis
    using clock_pacific_tz code
    by (simp add: calculateDSTAuto_rule calculateDSTAuto_tz_dst_rule gps_sample_def)
qed

text \<open>
  C10, amended: the two calculators return the same answer in every month other than
  March and November, in March on days before the 8th and from the 14th on, and in
  November from the 7th on.  (The days in between are where a computed Sunday can
  fall on either side of the fixed threshold.)
\<close>

theorem dst_variants_agree:
  "(gps_month g \<noteq> 3 \<and> gps_month g \<noteq> 11) \<or>
   (gps_month g = 3 \<and> (gps_day g < 8 \<or> gps_day g \<ge> 14)) \<or>
   (gps_month g = 11 \<and> gps_day g \<ge> 7)
   \<longrightarrow> calculateDSTAuto_tz_dst g s = calculateDSTAuto g s"
proof -
  have a: "8 \<le> calculateSecondSunday 3 (gps_year g)"
    "calculateSecondSunday 3 (gps_year g) \<le> 14"
    using calculateSecondSunday_range by blast+
  have b: "calculateFirstSunday 11 (gps_year g) \<le> 7"
    using calculateFirstSunday_range by blast
  show ?thesis
    using a b unfolding calculateDSTAuto_rule calculateDSTAuto_tz_dst_rule
    by (auto simp: word_less_nat_alt word_le_nat_alt)
qed

theorem dst_variants_agree_witness:
  "calculateDSTAuto_tz_dst (gps_sample\<lparr>gps_month := 7, gps_day := 4\<rparr>) clock_pacific = True \<and>
   calculateDSTAuto (gps_sample\<lparr>gps_month := 7, gps_day := 4\<rparr>) clock_pacific = True \<and>
   calculateDSTAuto_tz_dst (gps_sample\<lparr>gps_month := 3, gps_day := 14\<rparr>) clock_pacific
     = calculateDSTAuto (gps_sample\<lparr>gps_month := 3, gps_day := 14\<rparr>) clock_pacific \<and>
   calculateDSTAuto_tz_dst (gps_sample\<lparr>gps_month := 11, gps_day := 7\<rparr>) clock_pacific
     = calculateDSTAuto (gps_sample\<lparr>gps_month := 11, gps_day := 7\<rparr>) clock_pacific"
  using dst_variants_agree [of "gps_sample\<lparr>gps_month := 7, gps_day := 4\<rparr>" clock_pacific]
    dst_variants_agree [of "gps_sample\<lparr>gps_month := 3, gps_day := 14\<rparr>" clock_pacific]
    dst_variants_agree [of "gps_sample\<lparr>gps_month := 11, gps_day := 7\<rparr>" clock_pacific]
    clock_pacific_tz
  by (simp add: calculateDSTAuto_tz_dst_rule gps_sample_def)

subsection \<open>Timezone resolver\<close>

lemma NUM_TIMEZONES_eq: "NUM_TIMEZONES = 8"
  by (simp add: NUM_TIMEZONES_def TIMEZONES_def)

lemma detectLoop_first:
  "i \<le> k \<Longrightarrow> k < 7 \<Longrightarrow> inBox (TIMEZONES ! k) lat lon \<Longrightarrow>
   (\<forall>j. i \<le> j \<and> j < k \<longrightarrow> \<not> inBox (TIMEZONES ! j) lat lon) \<Longrightarrow>
   detectLoop lat lon i = k"
proof (induction lat lon i rule: detectLoop.induct)
  case (1 lat lon i)
  have bound: "int i < uint NUM_TIMEZONES - 1"
    using 1(2,3) by (simp add: NUM_TIMEZONES_eq)
  show ?case
  proof (cases "i = k")
    case True
    with 1(4) bound show ?thesis
      by (subst detectLoop.simps) simp
  next
    case False
    with 1(2) have lt: "i < k" by simp
    with 1(5) have nb: "\<not> inBox (TIMEZONES ! i) lat lon" by simp
    have "detectLoop lat lon (i + 1) = k"
      using 1(1) [OF bound nb] lt 1(3,4,5) by simp
    with bound nb show ?thesis
      by (subst detectLoop.simps) simp
  qed
qed

lemma detectLoop_none:
  "(\<forall>j. i \<le> j \<and> j < 7 \<longrightarrow> \<not> inBox (TIMEZONES ! j) lat lon) \<Longrightarrow>
   detectLoop lat lon i = 7"
proof (induction lat lon i rule: detectLoop.induct)
  case (1 lat lon i)
  show ?case
  proof (cases "i < 7")
    case True
    then have bound: "int i < uint NUM_TIMEZONES - 1"
      by (simp add: NUM_TIMEZONES_eq)
    from 1(2) True have nb: "\<not> inBox (TIMEZONES ! i) lat lon" by simp
    have "detectLoop lat lon (i + 1) = 7"
      using 1(1) [OF bound nb] 1(2) by simp
    with bound nb show ?thesis
      by (subst detectLoop.simps) simp
  next
    case False
    then have "\<not> int i < uint NUM_TIMEZONES - 1"
      by (simp add: NUM_TIMEZONES_eq)
    then show ?thesis
      by (subst detectLoop.simps) (simp add: NUM_TIMEZONES_eq)
  qed
qed

lemma detectLoop_le: "detectLoop lat lon i \<le> 7"
proof (induction lat lon i rule: detectLoop.induct)
  case (1 lat lon i)
  show ?case
  proof (cases "int i < uint NUM_TIMEZONES - 1")
    case True
    note bound = this
    then have "i < 7" by (simp add: NUM_TIMEZONES_eq)
    show ?thesis
    proof (cases "inBox (TIMEZONES ! i) lat lon")
      case True
      with bound \<open>i < 7\<close> show ?thesis by (subst detectLoop.simps) simp
    next
      case False
      with bound 1 show ?thesis by (subst detectLoop.simps) simp
    qed
  next
    case False
    then show ?thesis by (subst detectLoop.simps) (simp add: NUM_TIMEZONES_eq)
  qed
qed

text \<open>
  C4: \<^verbatim>\<open>detectTimezoneFromLocation\<close> scans the entries before the last one in table
  order and returns the index of the first whose box holds the point (so with
  overlapping boxes the first declared wins); when no such box holds the point it
  returns the index of the last entry, the UTC fallback.
\<close>

theorem detectTimezoneFromLocation_first_match:
  "(k < unat NUM_TIMEZONES - 1 \<and> inBox (TIMEZONES ! k) lat lon \<and>
      (\<forall>j<k. \<not> inBox (TIMEZONES ! j) lat lon)
      \<longrightarrow> detectTimezoneFromLocation lat lon = of_nat k) \<and>
   ((\<forall>j < unat NUM_TIMEZONES - 1. \<not> inBox (TIMEZONES ! j) lat lon)
      \<longrightarrow> detectTimezoneFromLocation lat lon = NUM_TIMEZONES - 1) \<and>
   name (TIMEZONES ! unat (NUM_TIMEZONES - 1)) = ''UTC''"
proof (intro conjI impI)
  assume "k < unat NUM_TIMEZONES - 1 \<and> inBox (TIMEZONES ! k) lat lon \<and>
      (\<forall>j<k. \<not> inBox (TIMEZONES ! j) lat lon)"
  then have "detectLoop lat lon 0 = k"
    by (intro detectLoop_first) (simp_all add: NUM_TIMEZONES_eq)
  then show "detectTimezoneFromLocation lat lon = of_nat k"
    by (simp add: detectTimezoneFromLocation_def)
next
  assume "\<forall>j < unat NUM_TIMEZONES - 1. \<not> inBox (TIMEZONES ! j) lat lon"
  then have "detectLoop lat lon 0 = 7"
    by (intro detectLoop_none) (simp add: NUM_TIMEZONES_eq)
  then show "detectTimezoneFromLocation lat lon = NUM_TIMEZONES - 1"
    by (simp add: detectTimezoneFromLocation_def NUM_TIMEZONES_eq)
next
  show "name (TIMEZONES ! unat (NUM_TIMEZONES - 1)) = ''UTC''"
    by (simp add: NUM_TIMEZONES_eq TIMEZONES_def mkTimezone_def)
qed

lemmas inBox_eval = inBox_def fge_def TIMEZONES_def mkTimezone_def

lemma all_less_7: "(\<forall>k<7. P k) = (P 0 \<and> P 1 \<and> P 2 \<and> P 3 \<and> P 4 \<and> P 5 \<and> P (6::nat))"
  by (auto simp: eval_nat_numeral All_less_Suc)

lemma all_less_3: "(\<forall>k<3. P k) = (P 0 \<and> P 1 \<and> P (2::nat))"
  by (auto simp: eval_nat_numeral All_less_Suc)

lemma all_less_2: "(\<forall>k<2. P k) = (P 0 \<and> P (1::nat))"
  by (auto simp: eval_nat_numeral All_less_Suc)

theorem detectTimezoneFromLocation_first_match_witness:
  "detectTimezoneFromLocation (Num 30) (Num (-95)) = 2 \<and>
   detectTimezoneFromLocation (Num 0) (Num 0) = 7 \<and>
   inBox (TIMEZONES ! 3) (Num 45) (Num (-68)) \<and> inBox (TIMEZONES ! 4) (Num 45) (Num (-68)) \<and>
   detectTimezoneFromLocation (Num 45) (Num (-68)) = 3"
proof -
  have "detectTimezoneFromLocation (Num 30) (Num (-95)) = 2"
    using detectTimezoneFromLocation_first_match [of 2 "Num 30" "Num (-95)"]
    by (simp add: NUM_TIMEZONES_eq all_less_2 inBox_eval)
  moreover have "detectTimezoneFromLocation (Num 0) (Num 0) = 7"
    using detectTimezoneFromLocation_first_match [of 0 "Num 0" "Num 0"]
    by (simp add: NUM_TIMEZONES_eq all_less_7 inBox_eval)
  moreover have "detectTimezoneFromLocation (Num 45) (Num (-68)) = 3"
    using detectTimezoneFromLocation_first_match [of 3 "Num 45" "Num (-68)"]
    by (simp add: NUM_TIMEZONES_eq all_less_3 inBox_eval)
  moreover have "inBox (TIMEZONES ! 3) (Num 45) (Num (-68)) \<and> inBox (TIMEZONES ! 4) (Num 45) (Num (-68))"
    by (simp add: inBox_eval)
  ultimately show ?thesis by simp
qed

subsection \<open>Index of the current timezone\<close>

lemma detectTimezoneFromLocation_lt: "detectTimezoneFromLocation lat lon < NUM_TIMEZONES"
proof -
  have "detectLoop lat lon 0 \<le> 7" by (rule detectLoop_le)
  then have "unat (of_nat (detectLoop lat lon 0) :: uint8) \<le> 7"
    by (simp add: unat_of_nat)
  then show ?thesis
    by (simp add: detectTimezoneFromLocation_def NUM_TIMEZONES_eq word_less_nat_alt)
qed

lemma selector_mod_lt: "(sel :: uint8) mod NUM_TIMEZONES < NUM_TIMEZONES"
  by (simp add: NUM_TIMEZONES_eq word_mod_less_divisor)

lemma updateTimezoneSettings_index:
  "currentTimezoneIndex s < NUM_TIMEZONES \<Longrightarrow>
   currentTimezoneIndex (updateTimezoneSettings t s) < NUM_TIMEZONES"
  by (simp add: updateTimezoneSettings_def Let_def selector_mod_lt)

lemma autoSwitchTimezone_index:
  "currentTimezoneIndex s < NUM_TIMEZONES \<Longrightarrow>
   currentTimezoneIndex (autoSwitchTimezone t s) < NUM_TIMEZONES"
  by (simp add: autoSwitchTimezone_def Let_def detectTimezoneFromLocation_lt)

lemma updateLocationIfNeeded_index:
  "currentTimezoneIndex s < NUM_TIMEZONES \<Longrightarrow>
   currentTimezoneIndex (updateLocationIfNeeded t s) < NUM_TIMEZONES"
  by (simp add: updateLocationIfNeeded_def Let_def autoSwitchTimezone_index
      updateTimezoneSettings_index)

lemma updateTimezoneIfNeeded_index:
  "currentTimezoneIndex s < NUM_TIMEZONES \<Longrightarrow>
   currentTimezoneIndex (updateTimezoneIfNeeded t s) < NUM_TIMEZONES"
  by (simp add: updateTimezoneIfNeeded_def updateTimezoneSettings_index)

lemma updateGPSData_keeps:
  "currentTimezoneIndex (updateGPSData t s) = currentTimezoneIndex s \<and>
   isDSTActive (updateGPSData t s) = isDSTActive s \<and>
   autoModeEnabled (updateGPSData t s) = autoModeEnabled s"
  by (simp add: updateGPSData_def updateTimeFromGPS_def Let_def)

lemma loop_index:
  "currentTimezoneIndex s < NUM_TIMEZONES \<Longrightarrow>
   currentTimezoneIndex (fst (loop t (s, ind))) < NUM_TIMEZONES"
  by (simp add: loop_def Let_def split_beta updateGPSData_keeps
      updateLocationIfNeeded_index updateTimezoneIfNeeded_index)

lemma setup_sketch_index: "currentTimezoneIndex (setup_sketch t) < NUM_TIMEZONES"
proof -
  have "currentTimezoneIndex clockState0 < NUM_TIMEZONES"
    by (simp add: clockState0_def NUM_TIMEZONES_eq)
  then show ?thesis
    by (simp add: setup_sketch_def initializePins_def Let_def updateTimezoneSettings_index)
qed

lemma reachable_index: "reachable s \<Longrightarrow> currentTimezoneIndex s < NUM_TIMEZONES"
  by (induction rule: reachable.induct) (simp_all add: setup_sketch_index loop_index)


lemma updateTimezoneSettings_selector:
  "\<not> autoModeEnabled s \<Longrightarrow>
   sel = or (or (if pinA_low t then 1 else 0) (if pinB_low t then 2 else 0))
            (if pinC_low t then 4 else (0 :: uint8)) \<Longrightarrow>
   sel \<noteq> timezoneSwitchState s \<Longrightarrow>
   currentTimezoneIndex (updateTimezoneSettings t s) = sel mod NUM_TIMEZONES"
  by (cases "pinA_low t"; cases "pinB_low t"; cases "pinC_low t")
    (simp_all add: updateTimezoneSettings_def Let_def)

text \<open>
  C5: \<open>currentTimezoneIndex\<close> stays below \<open>NUM_TIMEZONES\<close> in every state the sketch
  reaches and across each operation that writes it.  The manual resolver stores the
  3-bit selector modulo the table size, which is below the table size for any selector
  value (9 would give 1), and the auto resolver returns an index below the table size.
\<close>

theorem currentTimezoneIndex_in_range:
  "(reachable s \<longrightarrow> currentTimezoneIndex s < NUM_TIMEZONES) \<and>
   (currentTimezoneIndex s < NUM_TIMEZONES \<longrightarrow>
      currentTimezoneIndex (updateTimezoneSettings t s) < NUM_TIMEZONES \<and>
      currentTimezoneIndex (updateLocationIfNeeded t s) < NUM_TIMEZONES) \<and>
   (\<not> autoModeEnabled s \<and>
    sel = or (or (if pinA_low t then 1 else 0) (if pinB_low t then 2 else 0))
             (if pinC_low t then 4 else 0) \<and>
    sel \<noteq> timezoneSwitchState s \<longrightarrow>
      currentTimezoneIndex (updateTimezoneSettings t s) = sel mod NUM_TIMEZONES) \<and>
   (n :: uint8) mod NUM_TIMEZONES < NUM_TIMEZONES \<and>
   (9 :: uint8) mod NUM_TIMEZONES = 1 \<and>
   detectTimezoneFromLocation lat lon < NUM_TIMEZONES"
proof (intro conjI impI)
  show "(9 :: uint8) mod NUM_TIMEZONES = 1"
    by (simp add: NUM_TIMEZONES_eq)
next
  assume "\<not> autoModeEnabled s \<and>
    sel = or (or (if pinA_low t then 1 else 0) (if pinB_low t then 2 else 0))
             (if pinC_low t then 4 else 0) \<and>
    sel \<noteq> timezoneSwitchState s"
  then show "currentTimezoneIndex (updateTimezoneSettings t s) = sel mod NUM_TIMEZONES"
    using updateTimezoneSettings_selector by blast
qed (simp_all add: reachable_index updateTimezoneSettings_index updateLocationIfNeeded_index
    selector_mod_lt detectTimezoneFromLocation_lt)

lemma setup_manual_state:
  "currentTimezoneIndex (setup_sketch tick_manual) = 4 \<and>
   isDSTActive (setup_sketch tick_manual) \<and>
   \<not> autoModeEnabled (setup_sketch tick_manual) \<and>
   timezoneSwitchState (setup_sketch tick_manual) = 4"
  by (simp add: setup_sketch_def initializePins_def updateTimezoneSettings_def Let_def
      tick_manual_def clockState0_def NUM_TIMEZONES_eq)

theorem currentTimezoneIndex_in_range_witness:
  "reachable (setup_sketch tick_manual) \<and>
   currentTimezoneIndex (setup_sketch tick_manual) = 4 \<and>
   currentTimezoneIndex
     (updateTimezoneSettings (tick_manual\<lparr>pinA_low := True\<rparr>) (setup_sketch tick_manual)) = 5 \<and>
   currentTimezoneIndex
     (updateLocationIfNeeded (tick_manual\<lparr>pinA_low := True\<rparr>) (setup_sketch tick_manual))
     < NUM_TIMEZONES"
  using currentTimezoneIndex_in_range
    [of "setup_sketch tick_manual" "tick_manual\<lparr>pinA_low := True\<rparr>" 5]
    reachable_setup [of tick_manual] setup_manual_state
  by (simp add: tick_manual_def NUM_TIMEZONES_eq)

subsection \<open>The DST flag\<close>

lemma getCurrentTimezone_updateGPSData:
  "getCurrentTimezone (updateGPSData t s) = getCurrentTimezone s"
  by (simp add: getCurrentTimezone_def updateGPSData_keeps)

lemma autoSwitchTimezone_dst:
  "(\<not> observesDST (getCurrentTimezone s) \<longrightarrow> \<not> isDSTActive s) \<Longrightarrow>
   (\<not> observesDST (getCurrentTimezone (autoSwitchTimezone t s))
      \<longrightarrow> \<not> isDSTActive (autoSwitchTimezone t s))"
  by (simp add: autoSwitchTimezone_def Let_def getCurrentTimezone_def)

lemma autoSwitchTimezone_change:
  "currentTimezoneIndex (autoSwitchTimezone t s) \<noteq> currentTimezoneIndex s \<Longrightarrow>
   \<not> observesDST (getCurrentTimezone (autoSwitchTimezone t s)) \<Longrightarrow>
   \<not> isDSTActive (autoSwitchTimezone t s)"
  by (simp add: autoSwitchTimezone_def Let_def getCurrentTimezone_def split: if_splits)

lemma autoSwitchTimezone_mode:
  "autoModeEnabled (autoSwitchTimezone t s) = autoModeEnabled s"
  by (simp add: autoSwitchTimezone_def Let_def)

lemma updateTimezoneSettings_mode:
  "autoModeEnabled (updateTimezoneSettings t s) = autoModeEnabled s"
  by (simp add: updateTimezoneSettings_def Let_def)

lemma updateLocationIfNeeded_dst:
  assumes "autoModeEnabled s"
    and "autoModeEnabled (updateLocationIfNeeded t s)"
    and "\<not> observesDST (getCurrentTimezone s) \<longrightarrow> \<not> isDSTActive s"
  shows "\<not> observesDST (getCurrentTimezone (updateLocationIfNeeded t s))
           \<longrightarrow> \<not> isDSTActive (updateLocationIfNeeded t s)"
proof (cases "gpsFixValid s")
  case False
  with assms(3) show ?thesis by (simp add: updateLocationIfNeeded_def)
next
  case True
  have sw: "\<not> observesDST (getCurrentTimezone (autoSwitchTimezone t s))
      \<longrightarrow> \<not> isDSTActive (autoSwitchTimezone t s)"
    using assms(3) by (rule autoSwitchTimezone_dst)
  have same: "autoModePin_low t = autoModeEnabled s"
    using assms(1,2) True
    by (simp add: updateLocationIfNeeded_def Let_def autoSwitchTimezone_mode
        updateTimezoneSettings_mode split: if_splits)
  show ?thesis
    using sw assms(1,3) same True
    by (simp add: updateLocationIfNeeded_def Let_def autoSwitchTimezone_mode
        getCurrentTimezone_def)
qed

lemma updateTimezoneIfNeeded_mode:
  "autoModeEnabled (updateTimezoneIfNeeded t s) = autoModeEnabled s"
  by (simp add: updateTimezoneIfNeeded_def updateTimezoneSettings_mode)

lemma loop_auto_dst:
  assumes "autoModeEnabled s \<longrightarrow> \<not> observesDST (getCurrentTimezone s) \<longrightarrow> \<not> isDSTActive s"
    and "autoModeEnabled (fst (loop t (s, ind)))"
  shows "\<not> observesDST (getCurrentTimezone (fst (loop t (s, ind))))
           \<longrightarrow> \<not> isDSTActive (fst (loop t (s, ind)))"
proof -
  let ?s1 = "updateGPSData t s"
  let ?s2 = "if autoModeEnabled ?s1 then updateLocationIfNeeded t ?s1
             else updateTimezoneIfNeeded t ?s1"
  have fin: "autoModeEnabled (fst (loop t (s, ind))) = autoModeEnabled ?s2"
    "isDSTActive (fst (loop t (s, ind))) = isDSTActive ?s2"
    "getCurrentTimezone (fst (loop t (s, ind))) = getCurrentTimezone ?s2"
    by (simp_all add: loop_def Let_def split_beta getCurrentTimezone_def)
  have auto1: "autoModeEnabled ?s1"
    using assms(2) fin(1) by (auto simp: updateTimezoneIfNeeded_mode split: if_splits)
  then have "autoModeEnabled s" by (simp add: updateGPSData_keeps)
  with assms(1) have "\<not> observesDST (getCurrentTimezone ?s1) \<longrightarrow> \<not> isDSTActive ?s1"
    by (simp add: getCurrentTimezone_updateGPSData updateGPSData_keeps)
  moreover have "autoModeEnabled (updateLocationIfNeeded t ?s1)"
    using assms(2) fin(1) auto1 by simp
  ultimately have "\<not> observesDST (getCurrentTimezone (updateLocationIfNeeded t ?s1))
      \<longrightarrow> \<not> isDSTActive (updateLocationIfNeeded t ?s1)"
    using auto1 by (intro updateLocationIfNeeded_dst)
  with auto1 fin show ?thesis by simp
qed

lemma setup_sketch_dst:
  "autoModeEnabled (setup_sketch t) \<longrightarrow> \<not> isDSTActive (setup_sketch t)"
  by (simp add: setup_sketch_def initializePins_def Let_def updateTimezoneSettings_mode
      clockState0_def)

lemma reachable_auto_dst:
  "reachable s \<Longrightarrow> autoModeEnabled s \<Longrightarrow> \<not> observesDST (getCurrentTimezone s) \<Longrightarrow>
   \<not> isDSTActive s"
proof (induction rule: reachable.induct)
  case (reachable_setup t)
  then show ?case using setup_sketch_dst by blast
next
  case (reachable_loop s t ind)
  then show ?case using loop_auto_dst [of s t ind] by blast
qed

lemma updateTimezoneSettings_dst_switch:
  "\<not> autoModeEnabled s \<Longrightarrow> dstPin_low t \<noteq> dstSwitchState s \<Longrightarrow>
   isDSTActive (updateTimezoneSettings t s) = dstPin_low t"
  by (simp add: updateTimezoneSettings_def Let_def)

text \<open>
  C6, as stated: in every reachable state, a timezone that does not observe DST has
  \<open>isDSTActive\<close> false, also after a manual switch update.  Started in manual mode
  with the selector on entry 4 (Atlantic Standard, no DST) and the DST switch on, the
  sketch has \<open>isDSTActive\<close> true right after start-up.
\<close>

theorem manual_dst_on_without_observesDST:
  "reachable (setup_sketch tick_manual) \<and>
   \<not> observesDST (getCurrentTimezone (setup_sketch tick_manual)) \<and>
   isDSTActive (setup_sketch tick_manual)"
  using reachable_setup [of tick_manual] setup_manual_state
  by (simp add: getCurrentTimezone_def TIMEZONES_def mkTimezone_def)

text \<open>
  C6, amended: in every reachable state that is in auto mode, a timezone that does not
  observe DST has \<open>isDSTActive\<close> false, and an auto-mode timezone change to such a
  timezone leaves it false.  In manual mode a change of the DST switch stores the
  switch level in \<open>isDSTActive\<close> whatever the timezone; the gate is on the reading
  side: \<^verbatim>\<open>getDSTOffset\<close> is 0 in every state whose timezone does not observe DST.
\<close>

theorem isDSTActive_gated:
  "(reachable s \<and> autoModeEnabled s \<and> \<not> observesDST (getCurrentTimezone s)
      \<longrightarrow> \<not> isDSTActive s) \<and>
   (currentTimezoneIndex (autoSwitchTimezone t s) \<noteq> currentTimezoneIndex s \<and>
    \<not> observesDST (getCurrentTimezone (autoSwitchTimezone t s))
      \<longrightarrow> \<not> isDSTActive (autoSwitchTimezone t s)) \<and>
   (\<not> autoModeEnabled s \<and> dstPin_low t \<noteq> dstSwitchState s
      \<longrightarrow> isDSTActive (updateTimezoneSettings t s) = dstPin_low t) \<and>
   (\<not> observesDST (getCurrentTimezone s) \<longrightarrow> getDSTOffset s = 0)"
  using reachable_auto_dst [of s] autoSwitchTimezone_change [of t s]
    updateTimezoneSettings_dst_switch [of s t]
  by (auto simp: getDSTOffset_def)


lemma detect_hawaii: "detectTimezoneFromLocation (Num 20) (Num (-157)) = 5"
  by (simp add: detectTimezoneFromLocation_def detectLoop.simps NUM_TIMEZONES_eq inBox_eval)

lemma loop_hawaii_state:
  "autoModeEnabled (fst (loop
      (tick_auto\<lparr>gps := gps_sample\<lparr>latitudeDegrees := Num 20, longitudeDegrees := Num (-157)\<rparr>\<rparr>)
      (setup_sketch tick_auto, \<lparr>lastBlink = 0, blinkState = False\<rparr>))) \<and>
   currentTimezoneIndex (fst (loop
      (tick_auto\<lparr>gps := gps_sample\<lparr>latitudeDegrees := Num 20, longitudeDegrees := Num (-157)\<rparr>\<rparr>)
      (setup_sketch tick_auto, \<lparr>lastBlink = 0, blinkState = False\<rparr>))) = 5"
  by (simp add: loop_def Let_def split_beta setup_sketch_def initializePins_def tick_auto_def
      clockState0_def updateGPSData_def updateTimeFromGPS_def gps_sample_def
      updateLocationIfNeeded_def autoSwitchTimezone_def detect_hawaii
      getCurrentTimezone_def TIMEZONES_def mkTimezone_def)

lemma autoSwitch_hawaii_index:
  "currentTimezoneIndex (autoSwitchTimezone
      (tick_auto\<lparr>gps := gps_sample\<lparr>latitudeDegrees := Num 20, longitudeDegrees := Num (-157)\<rparr>\<rparr>)
      (clock_pacific\<lparr>isDSTActive := True\<rparr>)) = 5"
  by (simp add: autoSwitchTimezone_def Let_def tick_auto_def gps_sample_def detect_hawaii
      clock_pacific_def clockState0_def)

theorem isDSTActive_gated_witness:
  "reachable (fst (loop
      (tick_auto\<lparr>gps := gps_sample\<lparr>latitudeDegrees := Num 20, longitudeDegrees := Num (-157)\<rparr>\<rparr>)
      (setup_sketch tick_auto, \<lparr>lastBlink = 0, blinkState = False\<rparr>))) \<and>
   name (getCurrentTimezone (fst (loop
      (tick_auto\<lparr>gps := gps_sample\<lparr>latitudeDegrees := Num 20, longitudeDegrees := Num (-157)\<rparr>\<rparr>)
      (setup_sketch tick_auto, \<lparr>lastBlink = 0, blinkState = False\<rparr>)))) = ''Hawaii Standard'' \<and>
   \<not> isDSTActive (fst (loop
      (tick_auto\<lparr>gps := gps_sample\<lparr>latitudeDegrees := Num 20, longitudeDegrees := Num (-157)\<rparr>\<rparr>)
      (setup_sketch tick_auto, \<lparr>lastBlink = 0, blinkState = False\<rparr>))) \<and>
   \<not> isDSTActive (autoSwitchTimezone
      (tick_auto\<lparr>gps := gps_sample\<lparr>latitudeDegrees := Num 20, longitudeDegrees := Num (-157)\<rparr>\<rparr>)
      (clock_pacific\<lparr>isDSTActive := True\<rparr>)) \<and>
   \<not> isDSTActive
      (updateTimezoneSettings (tick_manual\<lparr>dstPin_low := False\<rparr>) (setup_sketch tick_manual)) \<and>
   getDSTOffset (setup_sketch tick_manual) = 0"
proof -
  let ?t = "tick_auto\<lparr>gps := gps_sample\<lparr>latitudeDegrees := Num 20, longitudeDegrees := Num (-157)\<rparr>\<rparr>"
  let ?s = "fst (loop ?t (setup_sketch tick_auto, \<lparr>lastBlink = 0, blinkState = False\<rparr>))"
  let ?p = "clock_pacific\<lparr>isDSTActive := True\<rparr>"
  have r: "reachable ?s"
    by (rule reachable_loop [OF reachable_setup])
  have tz: "name (getCurrentTimezone ?s) = ''Hawaii Standard''"
    "\<not> observesDST (getCurrentTimezone ?s)"
    using loop_hawaii_state by (simp_all add: getCurrentTimezone_def TIMEZONES_def mkTimezone_def)
  have a: "\<not> isDSTActive ?s"
    using isDSTActive_gated [of ?s] r tz loop_hawaii_state by blast
  have "currentTimezoneIndex (autoSwitchTimezone ?t ?p) \<noteq> currentTimezoneIndex ?p"
    "\<not> observesDST (getCurrentTimezone (autoSwitchTimezone ?t ?p))"
    using autoSwitch_hawaii_index
    by (simp_all add: getCurrentTimezone_def TIMEZONES_def mkTimezone_def clock_pacific_def
        clockState0_def)
  then have b: "\<not> isDSTActive (autoSwitchTimezone ?t ?p)"
    using isDSTActive_gated [of ?p ?t] by blast
  have "\<not> autoModeEnabled (setup_sketch tick_manual)"
    "dstPin_low (tick_manual\<lparr>dstPin_low := False\<rparr>) \<noteq> dstSwitchState (setup_sketch tick_manual)"
    by (simp_all add: setup_sketch_def initializePins_def updateTimezoneSettings_def Let_def
        tick_manual_def clockState0_def)
  then have c: "\<not> isDSTActive
      (updateTimezoneSettings (tick_manual\<lparr>dstPin_low := False\<rparr>) (setup_sketch tick_manual))"
    using isDSTActive_gated [of "setup_sketch tick_manual" "tick_manual\<lparr>dstPin_low := False\<rparr>"]
    by simp
  have "\<not> observesDST (getCurrentTimezone (setup_sketch tick_manual))"
    using setup_manual_state by (simp add: getCurrentTimezone_def TIMEZONES_def mkTimezone_def)
  then have d: "getDSTOffset (setup_sketch tick_manual) = 0"
    using isDSTActive_gated [of "setup_sketch tick_manual"] by blast
  from r tz(1) a b c d show ?thesis by blast
qed

subsection \<open>Display formatter\<close>

lemma word_mod_2_even: "((w :: uint8) mod 2 = 0) = even (unat w)"
proof -
  have "(w mod 2 = 0) = (unat (w mod 2) = 0)"
    by (simp add: unat_eq_0)
  also have "\<dots> = (unat w mod 2 = 0)"
    by (simp add: unat_mod)
  finally show ?thesis by (simp add: even_iff_mod_2_eq_zero)
qed

lemma calculateTimezoneOffset_pacific_dst:
  "calculateTimezoneOffset (clock_pacific\<lparr>isDSTActive := True\<rparr>) = -7"
  by (simp add: calculateTimezoneOffset_def getTimezoneOffset_def getDSTOffset_def
      getCurrentTimezone_def clock_pacific_def clockState0_def TIMEZONES_def mkTimezone_def)

lemma updateDisplay_fix:
  "gpsFixValid s \<Longrightarrow>
   updateDisplay now s ind =
     ([Print (convertTo12Hour (uint (hours s)) * 100 + uint (minutes s)),
       DrawColon (even (unat (seconds s))), WriteDisplay], ind)"
  by (simp add: updateDisplay_def Let_def TIME_24_HOUR_def word_mod_2_even)

lemma updateTimeFromGPS_sample:
  "hours (updateTimeFromGPS gps_sample (clock_pacific\<lparr>isDSTActive := True\<rparr>)) = 7 \<and>
   minutes (updateTimeFromGPS gps_sample (clock_pacific\<lparr>isDSTActive := True\<rparr>)) = 30 \<and>
   seconds (updateTimeFromGPS gps_sample (clock_pacific\<lparr>isDSTActive := True\<rparr>)) = 15 \<and>
   gpsFixValid (updateTimeFromGPS gps_sample (clock_pacific\<lparr>isDSTActive := True\<rparr>))"
proof -
  have "gpsFixValid (clock_pacific\<lparr>isDSTActive := True\<rparr>)"
    by (simp add: clock_pacific_def)
  then show ?thesis
    by (simp add: updateTimeFromGPS_def Let_def calculateTimezoneOffset_pacific_dst
        gps_sample_def normalizeHours_mod)
qed

text \<open>
  C8: with a valid fix, \<^verbatim>\<open>updateDisplay\<close> prints the display hour times 100 plus the
  minute and draws the colon exactly when the second is even; it makes no other driver
  call than the final write and leaves the indicator statics as they were.  End to
  end: UTC 14:30:15 with Pacific Standard (offset -8) and DST active (delta +1), in
  12-hour mode, gives local hour 7, display value 730 and the colon off.
\<close>

theorem updateDisplay_format:
  "(gpsFixValid s \<longrightarrow>
      updateDisplay now s ind =
        ([Print (convertTo12Hour (uint (hours s)) * 100 + uint (minutes s)),
          DrawColon (even (unat (seconds s))), WriteDisplay], ind)) \<and>
   name (getCurrentTimezone (clock_pacific\<lparr>isDSTActive := True\<rparr>)) = ''Pacific Standard'' \<and>
   calculateTimezoneOffset (clock_pacific\<lparr>isDSTActive := True\<rparr>) = -8 + 1 \<and>
   hours (updateTimeFromGPS gps_sample (clock_pacific\<lparr>isDSTActive := True\<rparr>)) = 7 \<and>
   updateDisplay now (updateTimeFromGPS gps_sample (clock_pacific\<lparr>isDSTActive := True\<rparr>)) ind =
     ([Print 730, DrawColon False, WriteDisplay], ind)"
proof (intro conjI impI)
  assume "gpsFixValid s"
  then show "updateDisplay now s ind =
        ([Print (convertTo12Hour (uint (hours s)) * 100 + uint (minutes s)),
          DrawColon (even (unat (seconds s))), WriteDisplay], ind)"
    by (rule updateDisplay_fix)
next
  show "name (getCurrentTimezone (clock_pacific\<lparr>isDSTActive := True\<rparr>)) = ''Pacific Standard''"
    by (simp add: getCurrentTimezone_def clock_pacific_def clockState0_def TIMEZONES_def
        mkTimezone_def)
next
  show "calculateTimezoneOffset (clock_pacific\<lparr>isDSTActive := True\<rparr>) = -8 + 1"
    by (simp add: calculateTimezoneOffset_pacific_dst)
next
  show "hours (updateTimeFromGPS gps_sample (clock_pacific\<lparr>isDSTActive := True\<rparr>)) = 7"
    by (simp add: updateTimeFromGPS_sample)
next
  show "updateDisplay now (updateTimeFromGPS gps_sample (clock_pacific\<lparr>isDSTActive := True\<rparr>)) ind =
     ([Print 730, DrawColon False, WriteDisplay], ind)"
    using updateTimeFromGPS_sample
    by (simp add: updateDisplay_fix convertTo12Hour_def)
qed

theorem updateDisplay_format_witness:
  "gpsFixValid (clock_pacific\<lparr>hours := 23, minutes := 5, seconds := 4\<rparr>) \<and>
   updateDisplay 0 (clock_pacific\<lparr>hours := 23, minutes := 5, seconds := 4\<rparr>)
       \<lparr>lastBlink = 0, blinkState = False\<rparr> =
     ([Print 1105, DrawColon True, WriteDisplay], \<lparr>lastBlink = 0, blinkState = False\<rparr>)"
  using updateDisplay_format
    [of "clock_pacific\<lparr>hours := 23, minutes := 5, seconds := 4\<rparr>" 0
        "\<lparr>lastBlink = 0, blinkState = False\<rparr>"]
  by (simp add: clock_pacific_def clockState0_def convertTo12Hour_def)

subsection \<open>No fix, no time\<close>

lemma updateTimezoneSettings_time:
  "hours (updateTimezoneSettings t s) = hours s \<and>
   minutes (updateTimezoneSettings t s) = minutes s \<and>
   seconds (updateTimezoneSettings t s) = seconds s \<and>
   gpsFixValid (updateTimezoneSettings t s) = gpsFixValid s"
  by (simp add: updateTimezoneSettings_def Let_def)

lemma autoSwitchTimezone_time:
  "hours (autoSwitchTimezone t s) = hours s \<and>
   minutes (autoSwitchTimezone t s) = minutes s \<and>
   seconds (autoSwitchTimezone t s) = seconds s \<and>
   gpsFixValid (autoSwitchTimezone t s) = gpsFixValid s"
  by (simp add: autoSwitchTimezone_def Let_def)

lemma updateLocationIfNeeded_time:
  "hours (updateLocationIfNeeded t s) = hours s \<and>
   minutes (updateLocationIfNeeded t s) = minutes s \<and>
   seconds (updateLocationIfNeeded t s) = seconds s \<and>
   gpsFixValid (updateLocationIfNeeded t s) = gpsFixValid s"
  by (simp add: updateLocationIfNeeded_def Let_def autoSwitchTimezone_time
      updateTimezoneSettings_time)

lemma updateTimezoneIfNeeded_time:
  "hours (updateTimezoneIfNeeded t s) = hours s \<and>
   minutes (updateTimezoneIfNeeded t s) = minutes s \<and>
   seconds (updateTimezoneIfNeeded t s) = seconds s \<and>
   gpsFixValid (updateTimezoneIfNeeded t s) = gpsFixValid s"
  by (simp add: updateTimezoneIfNeeded_def updateTimezoneSettings_time)

lemma updateGPSData_no_fix:
  "\<not> gpsFixValid (updateGPSData t s) \<Longrightarrow>
   hours (updateGPSData t s) = hours s \<and> minutes (updateGPSData t s) = minutes s \<and>
   seconds (updateGPSData t s) = seconds s"
  by (simp add: updateGPSData_def updateTimeFromGPS_def Let_def split: if_splits)

lemma loop_time:
  "hours (fst (loop t (s, ind))) = hours (updateGPSData t s) \<and>
   minutes (fst (loop t (s, ind))) = minutes (updateGPSData t s) \<and>
   seconds (fst (loop t (s, ind))) = seconds (updateGPSData t s) \<and>
   gpsFixValid (fst (loop t (s, ind))) = gpsFixValid (updateGPSData t s)"
  by (simp add: loop_def Let_def split_beta updateLocationIfNeeded_time
      updateTimezoneIfNeeded_time)

lemma loop_display_no_fix:
  "\<not> gpsFixValid (updateGPSData t s) \<Longrightarrow>
   snd (loop t (s, ind)) = (ind, []) \<or>
   snd (loop t (s, ind)) =
     (snd (showNoGPSIndicator (millis t) ind), fst (showNoGPSIndicator (millis t) ind))"
  by (simp add: loop_def Let_def split_beta updateLocationIfNeeded_time
      updateTimezoneIfNeeded_time updateDisplay_def)

text \<open>
  C9: when \<open>gpsFixValid\<close> is false (as \<^verbatim>\<open>updateGPSData\<close> leaves it in this pass),
  \<^verbatim>\<open>updateTimeFromGPS\<close> has not run: the hours, minutes and seconds of the clock
  state are what they were before \<^verbatim>\<open>updateGPSData\<close>, and before the whole pass of
  \<^verbatim>\<open>loop\<close>; the pass makes no driver call or exactly those of the no-signal
  indicator, and \<^verbatim>\<open>updateDisplay\<close> without a fix is \<^verbatim>\<open>showNoGPSIndicator\<close>.
\<close>

theorem no_fix_no_time_update:
  "(\<not> gpsFixValid (updateGPSData t s) \<longrightarrow>
      hours (updateGPSData t s) = hours s \<and> minutes (updateGPSData t s) = minutes s \<and>
      seconds (updateGPSData t s) = seconds s) \<and>
   (\<not> gpsFixValid (fst (loop t (s, ind))) \<longrightarrow>
      hours (fst (loop t (s, ind))) = hours s \<and> minutes (fst (loop t (s, ind))) = minutes s \<and>
      seconds (fst (loop t (s, ind))) = seconds s \<and>
      (snd (loop t (s, ind)) = (ind, []) \<or>
       snd (loop t (s, ind)) =
         (snd (showNoGPSIndicator (millis t) ind), fst (showNoGPSIndicator (millis t) ind)))) \<and>
   (\<not> gpsFixValid s \<longrightarrow> updateDisplay now s ind = showNoGPSIndicator now ind)"
  using updateGPSData_no_fix [of t s] loop_display_no_fix [of t s ind]
  by (simp add: loop_time updateDisplay_def)


theorem no_fix_no_time_update_witness:
  "\<not> gpsFixValid (fst (loop (tick_auto\<lparr>gps := gps_sample\<lparr>gps_fix := False\<rparr>\<rparr>)
      (clock_pacific\<lparr>hours := 7, minutes := 30, seconds := 15\<rparr>,
       \<lparr>lastBlink = 0, blinkState = False\<rparr>))) \<and>
   hours (fst (loop (tick_auto\<lparr>gps := gps_sample\<lparr>gps_fix := False\<rparr>\<rparr>)
      (clock_pacific\<lparr>hours := 7, minutes := 30, seconds := 15\<rparr>,
       \<lparr>lastBlink = 0, blinkState = False\<rparr>))) = 7 \<and>
   minutes (fst (loop (tick_auto\<lparr>gps := gps_sample\<lparr>gps_fix := False\<rparr>\<rparr>)
      (clock_pacific\<lparr>hours := 7, minutes := 30, seconds := 15\<rparr>,
       \<lparr>lastBlink = 0, blinkState = False\<rparr>))) = 30 \<and>
   seconds (fst (loop (tick_auto\<lparr>gps := gps_sample\<lparr>gps_fix := False\<rparr>\<rparr>)
      (clock_pacific\<lparr>hours := 7, minutes := 30, seconds := 15\<rparr>,
       \<lparr>lastBlink = 0, blinkState = False\<rparr>))) = 15 \<and>
   updateDisplay 1000 clockState0 \<lparr>lastBlink = 0, blinkState = False\<rparr> =
     ([Print 0, DrawColon True, WriteDisplay], \<lparr>lastBlink = 1000, blinkState = True\<rparr>)"
proof -
  let ?t = "tick_auto\<lparr>gps := gps_sample\<lparr>gps_fix := False\<rparr>\<rparr>"
  let ?s = "clock_pacific\<lparr>hours := 7, minutes := 30, seconds := 15\<rparr>"
  let ?ind = "\<lparr>lastBlink = 0, blinkState = False\<rparr>"
  have nofix: "\<not> gpsFixValid (updateGPSData ?t ?s)"
    by (simp add: updateGPSData_def tick_auto_def gps_sample_def)
  then have a: "\<not> gpsFixValid (fst (loop ?t (?s, ?ind)))"
    by (simp add: loop_time)
  have b: "hours (fst (loop ?t (?s, ?ind))) = 7 \<and> minutes (fst (loop ?t (?s, ?ind))) = 30 \<and>
      seconds (fst (loop ?t (?s, ?ind))) = 15"
    using no_fix_no_time_update [of ?t ?s ?ind] a by simp
  have "\<not> gpsFixValid clockState0"
    by (simp add: clockState0_def)
  then have c: "updateDisplay 1000 clockState0 ?ind =
      ([Print 0, DrawColon True, WriteDisplay], \<lparr>lastBlink = 1000, blinkState = True\<rparr>)"
    using no_fix_no_time_update [of ?t clockState0 ?ind 1000]
    by (simp add: showNoGPSIndicator_def Let_def)
  from a b c show ?thesis by blast
qed

end
